theory Spec2Isabelle
  imports Complex_Main
begin

section \<open>Elevation smoothing: the \<open>ElevationSmoother\<close> class\<close>

text \<open>
  The development embeds the class \<open>ElevationSmoother\<close> of
  \<open>shared/testing_data/test_elevation_smoothing.py\<close>: pattern-based spike detection on a
  window of raw elevations, followed by an exponential moving average whose coefficient
  adapts to the trend of the accepted elevations.

  A Python \<open>float\<close> is a binary64 number. The model keeps floats in \<^typ>\<open>real\<close> and rounds
  the exact result of every \<open>+\<close>, \<open>-\<close>, \<open>*\<close> and \<open>/\<close> to the nearest binary64 number, ties
  to even, as IEEE 754 arithmetic does. Comparisons, \<open>abs\<close>, \<open>min\<close> and \<open>max\<close> are exact.
  Infinities and NaN are not modelled: a result of magnitude \<open>2^1024\<close> or more, which
  binary64 turns into an infinity, is outside the model. Python's \<open>int\<close> is \<^typ>\<open>int\<close> (the
  field \<open>trend_window\<close>) or \<^typ>\<open>nat\<close> (lengths and counts, which are never negative).
  Every operation of the source that can raise is a branch of the model: results have the
  type \<open>py_error + 'a\<close>, with \<open>Inl\<close> for the exception.
\<close>

subsection \<open>Binary64 arithmetic\<close>

text \<open>Rounding a real to the nearest integer, a tie going to the even one.\<close>

definition round_half_even :: "real \<Rightarrow> int" where
  "round_half_even x =
     (let f = \<lfloor>x\<rfloor>; d = x - of_int f in
      if d < 1 / 2 then f else if 1 / 2 < d then f + 1 else if even f then f else f + 1)"

text \<open>
  The binade of a positive \<open>x\<close> is the largest power of two that is at most \<open>x\<close>. The
  exponent of a binary64 number lies between -1022 and 1023, so the search upwards makes
  at most 1023 steps and the search downwards stops at \<open>2^-1022\<close>, the binade of every
  subnormal number.
\<close>

primrec binade_up :: "nat \<Rightarrow> real \<Rightarrow> real" where
  "binade_up 0 x = 1"
| "binade_up (Suc n) x = (if 2 \<le> x then 2 * binade_up n (x / 2) else 1)"

primrec binade_down :: "nat \<Rightarrow> real \<Rightarrow> real" where
  "binade_down 0 x = 1"
| "binade_down (Suc n) x = (if x < 1 then binade_down n (2 * x) / 2 else 1)"

definition binade :: "real \<Rightarrow> real" where
  "binade x = (if 1 \<le> x then binade_up 1023 x else binade_down 1022 x)"

text \<open>
  A binary64 number has 53 significant bits: in the binade \<open>b\<close> the representable numbers
  are the multiples of \<open>b / 2^52\<close>.
\<close>

definition quantum :: "real \<Rightarrow> real" where
  "quantum x = binade \<bar>x\<bar> / 4503599627370496"

text \<open>
  \<open>fl x\<close> is the binary64 number nearest to \<open>x\<close>. It is also the value of the Python
  literal that denotes \<open>x\<close>: \<open>fl 0.1\<close> is the float that \<open>0.1\<close> evaluates to.
\<close>

definition fl :: "real \<Rightarrow> real" where
  "fl x = (if x = 0 then 0 else of_int (round_half_even (x / quantum x)) * quantum x)"

definition fadd :: "real \<Rightarrow> real \<Rightarrow> real" where
  "fadd x y = fl (x + y)"

definition fsub :: "real \<Rightarrow> real \<Rightarrow> real" where
  "fsub x y = fl (x - y)"

definition fmul :: "real \<Rightarrow> real \<Rightarrow> real" where
  "fmul x y = fl (x * y)"

text \<open>The quotient by a divisor that is known not to be zero.\<close>

definition fdiv :: "real \<Rightarrow> real \<Rightarrow> real" where
  "fdiv x y = fl (x / y)"

text \<open>
  \<open>sum(xs)\<close> starts from 0 and adds the elements from left to right, rounding each partial
  sum.
\<close>

definition py_sum :: "real list \<Rightarrow> real" where
  "py_sum xs = foldl fadd 0 xs"

subsection \<open>Python primitives that can raise\<close>

datatype py_error = IndexError | ZeroDivisionError | ValueError

definition bind_err :: "py_error + 'a \<Rightarrow> ('a \<Rightarrow> py_error + 'b) \<Rightarrow> py_error + 'b" where
  "bind_err m f = (case m of Inl e \<Rightarrow> Inl e | Inr v \<Rightarrow> f v)"

text \<open>\<open>xs[i]\<close>: a negative index counts from the end; out of range raises \<open>IndexError\<close>.\<close>

definition py_index :: "'a list \<Rightarrow> int \<Rightarrow> py_error + 'a" where
  "py_index xs i =
     (if 0 \<le> i \<and> i < int (length xs) then Inr (xs ! nat i)
      else if i < 0 \<and> - int (length xs) \<le> i then Inr (xs ! nat (int (length xs) + i))
      else Inl IndexError)"

text \<open>\<open>xs.pop(0)\<close>, keeping the list that remains: raises \<open>IndexError\<close> on the empty list.\<close>

definition pop0 :: "'a list \<Rightarrow> py_error + 'a list" where
  "pop0 xs = (case xs of [] \<Rightarrow> Inl IndexError | _ # rest \<Rightarrow> Inr rest)"

text \<open>\<open>a / b\<close>: raises \<open>ZeroDivisionError\<close> when the divisor is zero.\<close>

definition py_div :: "real \<Rightarrow> real \<Rightarrow> py_error + real" where
  "py_div a b = (if b = 0 then Inl ZeroDivisionError else Inr (fdiv a b))"

text \<open>\<open>max(iterable)\<close>: raises \<open>ValueError\<close> on an empty sequence.\<close>

definition py_max_of :: "real list \<Rightarrow> py_error + real" where
  "py_max_of xs = (case xs of [] \<Rightarrow> Inl ValueError | x # rest \<Rightarrow> Inr (fold max rest x))"

subsection \<open>The object and its constructor\<close>

record ElevationSmoother =
  vertical_accuracy_threshold :: real
  alpha_min :: real
  alpha_max :: real
  trend_window :: int
  spike_reversal_threshold :: real
  previous_smoothed :: "real option"
  recent_elevations :: "real list"
  recent_accepted_elevations :: "real list"

definition init :: "real \<Rightarrow> real \<Rightarrow> real \<Rightarrow> int \<Rightarrow> real \<Rightarrow> ElevationSmoother" where
  "init vat amin amax tw srt =
     \<lparr> vertical_accuracy_threshold = vat, alpha_min = amin, alpha_max = amax,
       trend_window = tw, spike_reversal_threshold = srt,
       previous_smoothed = None, recent_elevations = [], recent_accepted_elevations = [] \<rparr>"

text \<open>The constructor called with no argument: every parameter takes its default.\<close>

definition init_default :: ElevationSmoother where
  "init_default = init 20.0 0.25 0.75 5 3.0"

text \<open>The default of the parameter \<open>vertical_accuracy\<close> of \<open>add_reading\<close>.\<close>

definition no_accuracy :: real where
  "no_accuracy = - 1.0"

definition reset :: "ElevationSmoother \<Rightarrow> ElevationSmoother" where
  "reset s = s\<lparr> previous_smoothed := None, recent_elevations := [],
                recent_accepted_elevations := [] \<rparr>"

subsection \<open>Consecutive differences\<close>

text \<open>
  The loop \<open>for i in range(1, len(xs)): changes.append(xs[i] - xs[i-1])\<close>, which both
  \<open>_estimate_accuracy_from_pattern\<close> and \<open>_calculate_adaptive_alpha\<close> run.
\<close>

fun changes_of :: "real list \<Rightarrow> real list" where
  "changes_of (x # y # rest) = fsub y x # changes_of (y # rest)"
| "changes_of _ = []"

subsection \<open>\<open>_estimate_accuracy_from_pattern\<close>\<close>

text \<open>
  Each of the three patterns is a function that says whether the pattern's \<open>return\<close> is
  taken. Pattern 1 reads \<open>changes[-1]\<close> and \<open>changes[-2]\<close>.
\<close>

definition reversal_spike :: "real \<Rightarrow> real list \<Rightarrow> py_error + bool" where
  "reversal_spike thr changes =
     (if length changes \<ge> 2 then
        bind_err (py_index changes (- 1)) (\<lambda>last_change.
        bind_err (py_index changes (- 2)) (\<lambda>second_last_change.
          Inr (\<bar>last_change\<bar> > thr \<and> \<bar>second_last_change\<bar> > thr \<and>
               ((last_change > 0 \<and> second_last_change < 0) \<or>
                (last_change < 0 \<and> second_last_change > 0)))))
      else Inr False)"

text \<open>\<open>1 if c > 0 else (-1 if c < 0 else 0)\<close>\<close>

definition sign_of :: "real \<Rightarrow> int" where
  "sign_of c = (if c > 0 then 1 else (if c < 0 then - 1 else 0))"

text \<open>Pattern 2 reads \<open>signs[0]\<close>, \<open>signs[1]\<close> and \<open>signs[2]\<close>.\<close>

definition oscillating :: "real list \<Rightarrow> py_error + bool" where
  "oscillating changes =
     (if length changes \<ge> 3 then
        (let signs = map sign_of changes in
         bind_err (py_index signs 0) (\<lambda>s0.
         bind_err (py_index signs 1) (\<lambda>s1.
         bind_err (py_index signs 2) (\<lambda>s2.
           Inr (s0 \<noteq> 0 \<and> s1 \<noteq> 0 \<and> s2 \<noteq> 0 \<and> s0 \<noteq> s1 \<and> s1 \<noteq> s2)))))
      else Inr False)"

text \<open>Pattern 3 divides by the length of the window and takes the maximum deviation.\<close>

definition micro_jitter :: "real list \<Rightarrow> py_error + bool" where
  "micro_jitter es =
     (if length es \<ge> 5 then
        bind_err (py_div (py_sum es) (real (length es))) (\<lambda>mean.
        bind_err (py_max_of (map (\<lambda>e. \<bar>fsub e mean\<bar>) es)) (\<lambda>max_deviation.
          Inr (max_deviation < 1.0)))
      else Inr False)"

definition estimate_accuracy_from_pattern :: "ElevationSmoother \<Rightarrow> py_error + real" where
  "estimate_accuracy_from_pattern s =
     (if length (recent_elevations s) < 4 then Inr 20.0
      else
        (let changes = changes_of (recent_elevations s) in
         bind_err (reversal_spike (spike_reversal_threshold s) changes) (\<lambda>spike.
           if spike then Inr 30.0
           else bind_err (oscillating changes) (\<lambda>osc.
             if osc then Inr 25.0
             else bind_err (micro_jitter (recent_elevations s)) (\<lambda>jitter.
               if jitter then Inr 15.0 else Inr 8.0)))))"

subsection \<open>\<open>_calculate_adaptive_alpha\<close>\<close>

definition calculate_adaptive_alpha :: "ElevationSmoother \<Rightarrow> py_error + real" where
  "calculate_adaptive_alpha s =
     (if length (recent_accepted_elevations s) < 3 then Inr (alpha_min s)
      else
        (let changes = changes_of (recent_accepted_elevations s);
             positive_count = length (filter (\<lambda>c. c > 0) changes);
             negative_count = length (filter (\<lambda>c. c < 0) changes);
             total_non_zero = positive_count + negative_count
         in if total_non_zero = 0 then Inr (alpha_min s)
            else
              (let majority_count = max positive_count negative_count in
               bind_err (py_div (real majority_count) (real total_non_zero)) (\<lambda>trend_strength.
               bind_err (py_div (py_sum (map abs changes)) (real (length changes)))
                 (\<lambda>avg_magnitude.
                 (let magnitude_boost = min (fdiv avg_magnitude 2.0) 1.0;
                      combined_strength = fdiv (fadd trend_strength magnitude_boost) 2.0;
                      alpha = fadd (alpha_min s)
                                (fmul combined_strength (fsub (alpha_max s) (alpha_min s)))
                  in Inr (max (alpha_min s) (min (alpha_max s) alpha))))))))"

subsection \<open>\<open>add_reading\<close>\<close>

text \<open>
  The method is the composition of four stages, in the order of the source. The first
  appends the raw elevation and keeps the last four.
\<close>

definition track_raw :: "ElevationSmoother \<Rightarrow> real \<Rightarrow> py_error + ElevationSmoother" where
  "track_raw s elevation =
     (let s1 = s\<lparr> recent_elevations := recent_elevations s @ [elevation] \<rparr> in
      if length (recent_elevations s1) > 4 then
        bind_err (pop0 (recent_elevations s1)) (\<lambda>rest. Inr (s1\<lparr> recent_elevations := rest \<rparr>))
      else Inr s1)"

text \<open>
  Stage 1 chooses the accuracy and gates the reading: the result is
  \<open>(elevation_to_smooth, was_rejected)\<close>.
\<close>

definition accuracy_to_use :: "real \<Rightarrow> real \<Rightarrow> real" where
  "accuracy_to_use vertical_accuracy estimated_accuracy =
     (if vertical_accuracy \<ge> 0 then vertical_accuracy else estimated_accuracy)"

definition gate :: "ElevationSmoother \<Rightarrow> real \<Rightarrow> real \<Rightarrow> real \<times> bool" where
  "gate s elevation accuracy =
     (if accuracy > vertical_accuracy_threshold s then
        (case previous_smoothed s of
           Some previous \<Rightarrow> (previous, True)
         | None \<Rightarrow> (elevation, False))
      else (elevation, False))"

text \<open>An accepted value enters the accepted window, which keeps the last \<open>trend_window\<close>.\<close>

definition track_accepted ::
  "ElevationSmoother \<Rightarrow> real \<Rightarrow> bool \<Rightarrow> py_error + ElevationSmoother" where
  "track_accepted s elevation_to_smooth was_rejected =
     (if \<not> was_rejected then
        (let s1 = s\<lparr> recent_accepted_elevations :=
                       recent_accepted_elevations s @ [elevation_to_smooth] \<rparr> in
         if int (length (recent_accepted_elevations s1)) > trend_window s then
           bind_err (pop0 (recent_accepted_elevations s1))
             (\<lambda>rest. Inr (s1\<lparr> recent_accepted_elevations := rest \<rparr>))
         else Inr s1)
      else Inr s)"

text \<open>
  Stage 2 blends the value with the previous output and stores the result. The blend is
  \<open>alpha * elevation_to_smooth + (1 - alpha) * self.previous_smoothed\<close>: two products, a
  difference and a sum, each of them rounded.
\<close>

definition blend :: "real \<Rightarrow> real \<Rightarrow> real \<Rightarrow> real" where
  "blend alpha elevation_to_smooth previous =
     fadd (fmul alpha elevation_to_smooth) (fmul (fsub 1 alpha) previous)"

definition smooth :: "ElevationSmoother \<Rightarrow> real \<Rightarrow> real \<Rightarrow> real" where
  "smooth s alpha elevation_to_smooth =
     (case previous_smoothed s of
        None \<Rightarrow> elevation_to_smooth
      | Some previous \<Rightarrow> blend alpha elevation_to_smooth previous)"

definition add_reading ::
  "ElevationSmoother \<Rightarrow> real \<Rightarrow> real \<Rightarrow> py_error + (real \<times> ElevationSmoother)" where
  "add_reading s elevation vertical_accuracy =
     bind_err (track_raw s elevation) (\<lambda>s1.
     bind_err (estimate_accuracy_from_pattern s1) (\<lambda>estimated_accuracy.
       (let (elevation_to_smooth, was_rejected) =
              gate s1 elevation (accuracy_to_use vertical_accuracy estimated_accuracy) in
        bind_err (track_accepted s1 elevation_to_smooth was_rejected) (\<lambda>s2.
        bind_err (calculate_adaptive_alpha s2) (\<lambda>alpha.
          (let smoothed = smooth s2 alpha elevation_to_smooth in
           Inr (smoothed, s2\<lparr> previous_smoothed := Some smoothed \<rparr>)))))))"

subsection \<open>Sequences of calls\<close>

text \<open>
  A caller holds one object and calls \<open>add_reading\<close> and \<open>reset\<close> on it. A run collects
  the values that \<open>add_reading\<close> returns and stops at the first exception.
\<close>

datatype call = AddReading real real | Reset

fun run :: "ElevationSmoother \<Rightarrow> call list \<Rightarrow> py_error + (real list \<times> ElevationSmoother)" where
  "run s [] = Inr ([], s)"
| "run s (Reset # calls) = run (reset s) calls"
| "run s (AddReading elevation vertical_accuracy # calls) =
     bind_err (add_reading s elevation vertical_accuracy) (\<lambda>(smoothed, s1).
     bind_err (run s1 calls) (\<lambda>(outputs, s2). Inr (smoothed # outputs, s2)))"

text \<open>Feeding a list of elevations with no vertical accuracy.\<close>

definition feed :: "ElevationSmoother \<Rightarrow> real list \<Rightarrow> py_error + (real list \<times> ElevationSmoother)" where
  "feed s elevations = run s (map (\<lambda>e. AddReading e no_accuracy) elevations)"

definition outputs_of :: "py_error + (real list \<times> ElevationSmoother) \<Rightarrow> py_error + real list" where
  "outputs_of r = (case r of Inl e \<Rightarrow> Inl e | Inr (outputs, _) \<Rightarrow> Inr outputs)"


subsection \<open>Predicates on states\<close>

text \<open>
  Two filters have the same configuration when the five fields that the constructor sets,
  and that no method assigns afterwards, agree.
\<close>

definition same_config :: "ElevationSmoother \<Rightarrow> ElevationSmoother \<Rightarrow> bool" where
  "same_config s t \<longleftrightarrow>
     vertical_accuracy_threshold s = vertical_accuracy_threshold t \<and>
     alpha_min s = alpha_min t \<and> alpha_max s = alpha_max t \<and>
     trend_window s = trend_window t \<and>
     spike_reversal_threshold s = spike_reversal_threshold t"

text \<open>
  The states that a filter goes through while it is fed one elevation \<open>v\<close> over and over:
  both windows hold nothing but \<open>v\<close>, the raw one at most four times, and the last output,
  if there is one, is \<open>v\<close>.
\<close>

definition constant_state :: "real \<Rightarrow> ElevationSmoother \<Rightarrow> bool" where
  "constant_state v s \<longleftrightarrow>
     (previous_smoothed s = None \<or> previous_smoothed s = Some v) \<and>
     set (recent_elevations s) \<subseteq> {v} \<and>
     set (recent_accepted_elevations s) \<subseteq> {v} \<and>
     length (recent_elevations s) \<le> 4"

section \<open>Basic facts about the primitives\<close>

lemma bind_err_Inr [simp]: "bind_err (Inr v) f = f v"
  by (simp add: bind_err_def)

lemma bind_err_Inl [simp]: "bind_err (Inl e) f = Inl e"
  by (simp add: bind_err_def)

lemma py_index_last: "xs \<noteq> [] \<Longrightarrow> py_index xs (- 1) = Inr (last xs)"
  by (cases xs rule: rev_cases) (auto simp: py_index_def nth_append)

lemma py_index_second_last:
  "2 \<le> length xs \<Longrightarrow> py_index xs (- 2) = Inr (xs ! (length xs - 2))"
  by (auto simp: py_index_def nat_diff_distrib intro!: arg_cong[where f="nth xs"])

lemma pop0_snoc: "pop0 (xs @ [x]) = Inr (tl (xs @ [x]))"
  by (cases xs) (simp_all add: pop0_def)

lemma py_div_nat: "n \<noteq> 0 \<Longrightarrow> py_div x (real n) = Inr (fdiv x (real n))"
  by (simp add: py_div_def)

lemma fl_zero [simp]: "fl 0 = 0"
  by (simp add: fl_def)

lemma fsub_self [simp]: "fsub x x = 0"
  by (simp add: fsub_def)

text \<open>
  Rules that let the simplifier compute \<open>fl\<close> at a numeral: the searches take their
  bound as a numeral and count it down.
\<close>

lemma binade_up_numeral:
  "binade_up (numeral k) x = (if 2 \<le> x then 2 * binade_up (pred_numeral k) (x / 2) else 1)"
  by (simp add: numeral_eq_Suc)

lemma binade_down_numeral:
  "binade_down (numeral k) x = (if x < 1 then binade_down (pred_numeral k) (2 * x) / 2 else 1)"
  by (simp add: numeral_eq_Suc)

lemmas fl_eval = fl_def quantum_def binade_def round_half_even_def Let_def
  binade_up_numeral binade_down_numeral fadd_def fsub_def fmul_def fdiv_def

lemma length_changes_of: "length (changes_of xs) = length xs - 1"
  by (induction xs rule: changes_of.induct) simp_all

section \<open>The pattern classifier never raises\<close>

text \<open>
  The two indexings of pattern 1 and the three of pattern 2 are inside their length guards,
  so each pattern is a plain condition on the changes.
\<close>

lemma reversal_spike_eq:
  "reversal_spike thr cs =
     Inr (2 \<le> length cs \<and> \<bar>last cs\<bar> > thr \<and> \<bar>cs ! (length cs - 2)\<bar> > thr \<and>
          ((last cs > 0 \<and> cs ! (length cs - 2) < 0) \<or>
           (last cs < 0 \<and> cs ! (length cs - 2) > 0)))"
proof (cases "2 \<le> length cs")
  case True
  then have "cs \<noteq> []" by auto
  with True show ?thesis
    by (simp add: reversal_spike_def py_index_last py_index_second_last)
next
  case False
  then show ?thesis by (simp add: reversal_spike_def)
qed

lemma oscillating_eq:
  "oscillating cs =
     Inr (3 \<le> length cs \<and> sign_of (cs ! 0) \<noteq> 0 \<and> sign_of (cs ! 1) \<noteq> 0 \<and>
          sign_of (cs ! 2) \<noteq> 0 \<and> sign_of (cs ! 0) \<noteq> sign_of (cs ! 1) \<and>
          sign_of (cs ! 1) \<noteq> sign_of (cs ! 2))"
proof (cases "3 \<le> length cs")
  case True
  then have "py_index (map sign_of cs) 0 = Inr (sign_of (cs ! 0))"
    "py_index (map sign_of cs) 1 = Inr (sign_of (cs ! 1))"
    "py_index (map sign_of cs) 2 = Inr (sign_of (cs ! 2))"
    by (auto simp: py_index_def)
  with True show ?thesis
    by (simp add: oscillating_def)
next
  case False
  then show ?thesis by (simp add: oscillating_def)
qed

lemma micro_jitter_total: "\<exists>b. micro_jitter es = Inr b"
  by (cases es) (auto simp: micro_jitter_def py_div_def py_max_of_def)

lemma micro_jitter_short: "length es < 5 \<Longrightarrow> micro_jitter es = Inr False"
  by (simp add: micro_jitter_def)

lemma estimate_total: "\<exists>a. estimate_accuracy_from_pattern s = Inr a"
proof -
  obtain b where b: "micro_jitter (recent_elevations s) = Inr b"
    using micro_jitter_total by blast
  show ?thesis
    by (simp add: estimate_accuracy_from_pattern_def Let_def reversal_spike_eq oscillating_eq b)
qed

section \<open>The adaptive coefficient\<close>

text \<open>
  \<open>_calculate_adaptive_alpha\<close> leaves either through one of its two early returns, with
  \<open>alpha_min\<close>, or through the clamp of its last line. Both divisors are positive where
  the divisions are reached.
\<close>

lemma alpha_shape:
  "calculate_adaptive_alpha s = Inr (alpha_min s) \<or>
   (\<exists>c. calculate_adaptive_alpha s = Inr (max (alpha_min s) (min (alpha_max s) c)))"
proof (cases "length (recent_accepted_elevations s) < 3")
  case True
  then show ?thesis by (simp add: calculate_adaptive_alpha_def)
next
  case long: False
  define changes where "changes = changes_of (recent_accepted_elevations s)"
  define total where
    "total = length (filter (\<lambda>c. c > 0) changes) + length (filter (\<lambda>c. c < 0) changes)"
  have len: "length changes \<noteq> 0"
    using long by (simp add: changes_def length_changes_of)
  show ?thesis
  proof (cases "total = 0")
    case True
    then show ?thesis
      using long unfolding total_def changes_def
      by (simp add: calculate_adaptive_alpha_def Let_def)
  next
    case False
    then have "calculate_adaptive_alpha s =
      Inr (max (alpha_min s) (min (alpha_max s)
        (fadd (alpha_min s)
          (fmul (fdiv (fadd
                  (fdiv (real (max (length (filter (\<lambda>c. c > 0) changes))
                                   (length (filter (\<lambda>c. c < 0) changes)))) (real total))
                  (min (fdiv (fdiv (py_sum (map abs changes)) (real (length changes))) 2.0) 1.0))
                  2.0)
            (fsub (alpha_max s) (alpha_min s))))))"
      using long len py_div_nat[of total] py_div_nat[of "length changes"]
      unfolding calculate_adaptive_alpha_def Let_def total_def changes_def
      by auto
    then show ?thesis by blast
  qed
qed

lemma alpha_total: "\<exists>a. calculate_adaptive_alpha s = Inr a"
  using alpha_shape[of s] by blast

section \<open>The stages of \<open>add_reading\<close>\<close>

text \<open>Each \<open>pop(0)\<close> follows an \<open>append\<close>, so it never meets an empty list.\<close>

lemma track_raw_eq:
  "track_raw s e =
     Inr (s\<lparr> recent_elevations :=
            (if 4 \<le> length (recent_elevations s) then tl (recent_elevations s @ [e])
             else recent_elevations s @ [e]) \<rparr>)"
  by (simp add: track_raw_def Let_def pop0_snoc)

lemma track_accepted_eq:
  "track_accepted s v rejected =
     Inr (if rejected then s
          else s\<lparr> recent_accepted_elevations :=
                 (if trend_window s < int (length (recent_accepted_elevations s)) + 1
                  then tl (recent_accepted_elevations s @ [v])
                  else recent_accepted_elevations s @ [v]) \<rparr>)"
  by (simp add: track_accepted_def Let_def pop0_snoc)

lemma add_reading_total: "\<exists>r s'. add_reading s e a = Inr (r, s')"
proof -
  obtain s1 where s1: "track_raw s e = Inr s1"
    by (simp add: track_raw_eq)
  obtain est where est: "estimate_accuracy_from_pattern s1 = Inr est"
    using estimate_total by blast
  obtain v rej where g: "gate s1 e (accuracy_to_use a est) = (v, rej)"
    by (cases "gate s1 e (accuracy_to_use a est)")
  obtain s2 where s2: "track_accepted s1 v rej = Inr s2"
    by (simp add: track_accepted_eq)
  obtain al where al: "calculate_adaptive_alpha s2 = Inr al"
    using alpha_total by blast
  show ?thesis
    by (simp add: add_reading_def s1 est g s2 al Let_def)
qed

lemma add_reading_stages:
  assumes "track_raw s e = Inr s1"
    and "estimate_accuracy_from_pattern s1 = Inr est"
    and "gate s1 e (accuracy_to_use a est) = (v, rej)"
    and "track_accepted s1 v rej = Inr s2"
    and "calculate_adaptive_alpha s2 = Inr al"
  shows "add_reading s e a = Inr (smooth s2 al v, s2\<lparr> previous_smoothed := Some (smooth s2 al v) \<rparr>)"
  using assms by (simp add: add_reading_def Let_def)

lemma track_raw_previous: "track_raw s e = Inr s1 \<Longrightarrow> previous_smoothed s1 = previous_smoothed s"
  by (auto simp: track_raw_eq)

lemma track_raw_config:
  "track_raw s e = Inr s1 \<Longrightarrow>
     vertical_accuracy_threshold s1 = vertical_accuracy_threshold s \<and>
     alpha_min s1 = alpha_min s \<and> alpha_max s1 = alpha_max s \<and>
     trend_window s1 = trend_window s \<and>
     spike_reversal_threshold s1 = spike_reversal_threshold s \<and>
     recent_accepted_elevations s1 = recent_accepted_elevations s"
  by (auto simp: track_raw_eq)

lemma first_call_identity:
  assumes "previous_smoothed s = None"
  shows "\<exists>s'. add_reading s e a = Inr (e, s')"
proof -
  obtain s1 where s1: "track_raw s e = Inr s1"
    by (simp add: track_raw_eq)
  have p1: "previous_smoothed s1 = None"
    using track_raw_previous[OF s1] assms by simp
  obtain est where est: "estimate_accuracy_from_pattern s1 = Inr est"
    using estimate_total by blast
  have g: "gate s1 e (accuracy_to_use a est) = (e, False)"
    by (simp add: gate_def p1)
  obtain s2 where s2: "track_accepted s1 e False = Inr s2"
    by (simp add: track_accepted_eq)
  have p2: "previous_smoothed s2 = None"
    using s2 p1 by (auto simp: track_accepted_eq)
  obtain al where al: "calculate_adaptive_alpha s2 = Inr al"
    using alpha_total by blast
  have "smooth s2 al e = e"
    by (simp add: smooth_def p2)
  with add_reading_stages[OF s1 est g s2 al] show ?thesis by simp
qed

lemma estimate_short:
  "length (recent_elevations s) < 4 \<Longrightarrow> estimate_accuracy_from_pattern s = Inr 20.0"
  by (simp add: estimate_accuracy_from_pattern_def)

lemma gate_at_threshold: "gate s e (vertical_accuracy_threshold s) = (e, False)"
  by (simp add: gate_def)

section \<open>Invariants of a sequence of calls\<close>

text \<open>
  A successful call of \<open>add_reading\<close> went through its four stages; it keeps the
  configuration and a raw window of at most four elements. Both facts lift to runs.
\<close>

lemma add_reading_result:
  assumes "add_reading s e a = Inr (r, s')"
  shows "\<exists>s1 est v rej s2 al.
           track_raw s e = Inr s1 \<and> estimate_accuracy_from_pattern s1 = Inr est \<and>
           gate s1 e (accuracy_to_use a est) = (v, rej) \<and>
           track_accepted s1 v rej = Inr s2 \<and> calculate_adaptive_alpha s2 = Inr al \<and>
           r = smooth s2 al v \<and> s' = s2\<lparr> previous_smoothed := Some (smooth s2 al v) \<rparr>"
proof -
  obtain s1 where s1: "track_raw s e = Inr s1"
    by (simp add: track_raw_eq)
  obtain est where est: "estimate_accuracy_from_pattern s1 = Inr est"
    using estimate_total by blast
  obtain v rej where g: "gate s1 e (accuracy_to_use a est) = (v, rej)"
    by (cases "gate s1 e (accuracy_to_use a est)")
  obtain s2 where s2: "track_accepted s1 v rej = Inr s2"
    by (simp add: track_accepted_eq)
  obtain al where al: "calculate_adaptive_alpha s2 = Inr al"
    using alpha_total by blast
  from add_reading_stages[OF s1 est g s2 al] assms s1 est g s2 al show ?thesis
    by auto
qed

lemma add_reading_same_config:
  assumes "add_reading s e a = Inr (r, s')"
  shows "same_config s' s"
proof -
  from add_reading_result[OF assms] obtain s1 est v rej s2 al where
    s1: "track_raw s e = Inr s1" and s2: "track_accepted s1 v rej = Inr s2"
    and s': "s' = s2\<lparr> previous_smoothed := Some (smooth s2 al v) \<rparr>"
    by blast
  from s1 have "same_config s1 s" by (auto simp: track_raw_eq same_config_def)
  moreover from s2 have "same_config s2 s1"
    by (auto simp: track_accepted_eq same_config_def split: if_splits)
  ultimately show ?thesis by (simp add: s' same_config_def)
qed

lemma add_reading_raw_length:
  assumes "add_reading s e a = Inr (r, s')" and "length (recent_elevations s) \<le> 4"
  shows "length (recent_elevations s') \<le> 4"
proof -
  from add_reading_result[OF assms(1)] obtain s1 est v rej s2 al where
    s1: "track_raw s e = Inr s1" and s2: "track_accepted s1 v rej = Inr s2"
    and s': "s' = s2\<lparr> previous_smoothed := Some (smooth s2 al v) \<rparr>"
    by blast
  from s1 assms(2) have "length (recent_elevations s1) \<le> 4"
    by (auto simp: track_raw_eq)
  moreover from s2 have "recent_elevations s2 = recent_elevations s1"
    by (auto simp: track_accepted_eq split: if_splits)
  ultimately show ?thesis by (simp add: s')
qed

lemma run_invariants:
  assumes "run s calls = Inr (outs, s')"
  shows "same_config s' s \<and> (length (recent_elevations s) \<le> 4 \<longrightarrow> length (recent_elevations s') \<le> 4)"
  using assms
proof (induction s calls arbitrary: outs rule: run.induct)
  case (1 s)
  then show ?case by (simp add: same_config_def)
next
  case (2 s calls)
  then have "same_config s' (reset s) \<and> length (recent_elevations s') \<le> 4"
    by (simp add: reset_def)
  then show ?case by (simp add: same_config_def reset_def)
next
  case (3 s e a calls)
  obtain r s1 where step: "add_reading s e a = Inr (r, s1)"
    using add_reading_total by blast
  with "3.prems" obtain outs' where rest: "run s1 calls = Inr (outs', s')"
    by (cases "run s1 calls") (auto split: prod.splits)
  from "3.IH"[of s1 outs'] step rest
  have "same_config s' s1 \<and> (length (recent_elevations s1) \<le> 4 \<longrightarrow> length (recent_elevations s') \<le> 4)"
    by simp
  with add_reading_same_config[OF step] add_reading_raw_length[OF step]
  show ?case by (auto simp: same_config_def)
qed

lemma run_total: "\<exists>outs s'. run s calls = Inr (outs, s')"
proof (induction s calls rule: run.induct)
  case (3 s e a calls)
  obtain r s1 where step: "add_reading s e a = Inr (r, s1)"
    using add_reading_total by blast
  with "3.IH"[of s1] obtain outs s' where "run s1 calls = Inr (outs, s')"
    by auto
  with step show ?case by simp
qed simp_all

lemma reset_eq_init:
  assumes "same_config s (init vat amin amax tw srt)"
  shows "reset s = init vat amin amax tw srt"
  using assms by (simp add: reset_def init_def same_config_def)

section \<open>The classifier on the windows that arise\<close>

lemma estimate_four_values:
  assumes "length (recent_elevations s) \<le> 4"
  shows "estimate_accuracy_from_pattern s = Inr 20.0 \<or>
         estimate_accuracy_from_pattern s = Inr 30.0 \<or>
         estimate_accuracy_from_pattern s = Inr 25.0 \<or>
         estimate_accuracy_from_pattern s = Inr 8.0"
proof -
  have "micro_jitter (recent_elevations s) = Inr False"
    using assms by (simp add: micro_jitter_short)
  then show ?thesis
    by (simp add: estimate_accuracy_from_pattern_def Let_def reversal_spike_eq oscillating_eq)
qed

lemma estimate_oscillating_four:
  assumes "length (recent_elevations s) = 4"
    and "reversal_spike (spike_reversal_threshold s) (changes_of (recent_elevations s)) = Inr False"
    and "oscillating (changes_of (recent_elevations s)) = Inr True"
  shows "estimate_accuracy_from_pattern s = Inr 25.0"
  using assms by (simp add: estimate_accuracy_from_pattern_def)

section \<open>Evaluation at concrete readings\<close>

text \<open>
  Evaluating a run at concrete readings: the simplifier unfolds the definitions below. The
  congruence rules make it evaluate an argument before it enters the function that
  consumes it, so that a function body is simplified once its arguments are numerals.
\<close>

lemma bind_err_weak_cong: "m = m' \<Longrightarrow> bind_err m f = bind_err m' f"
  by simp

lemma map_weak_cong: "xs = ys \<Longrightarrow> map f xs = map f ys"
  by simp

lemmas run_cong = bind_err_weak_cong let_weak_cong map_weak_cong

lemmas run_eval = feed_def outputs_of_def add_reading_def track_raw_eq track_accepted_eq
  estimate_accuracy_from_pattern_def reversal_spike_eq oscillating_eq micro_jitter_def
  calculate_adaptive_alpha_def py_div_def py_max_of_def py_sum_def gate_def accuracy_to_use_def
  smooth_def blend_def init_default_def init_def no_accuracy_def reset_def sign_of_def fl_eval

section \<open>What the coefficient depends on\<close>

lemma alpha_reads:
  "alpha_min s = alpha_min t \<Longrightarrow> alpha_max s = alpha_max t \<Longrightarrow>
   recent_accepted_elevations s = recent_accepted_elevations t \<Longrightarrow>
   calculate_adaptive_alpha s = calculate_adaptive_alpha t"
  by (simp only: calculate_adaptive_alpha_def)

lemma track_raw_alpha:
  "track_raw s e = Inr s1 \<Longrightarrow> calculate_adaptive_alpha s1 = calculate_adaptive_alpha s"
  using track_raw_config[of s e s1] by (intro alpha_reads) simp_all

section \<open>Feeding one value repeatedly\<close>

lemma changes_of_constant: "set xs \<subseteq> {v} \<Longrightarrow> set (changes_of xs) \<subseteq> {0}"
  by (induction xs rule: changes_of.induct) auto

lemma alpha_constant:
  assumes "set (recent_accepted_elevations s) \<subseteq> {v}"
  shows "calculate_adaptive_alpha s = Inr (alpha_min s)"
proof -
  have "set (changes_of (recent_accepted_elevations s)) \<subseteq> {0}"
    using assms by (rule changes_of_constant)
  then have "filter (\<lambda>c. c > 0) (changes_of (recent_accepted_elevations s)) = []"
    "filter (\<lambda>c. c < 0) (changes_of (recent_accepted_elevations s)) = []"
    by (auto simp: filter_empty_conv)
  then show ?thesis
    by (simp add: calculate_adaptive_alpha_def Let_def)
qed

lemma estimate_constant:
  assumes "set (recent_elevations s) \<subseteq> {v}" and "length (recent_elevations s) \<le> 4"
  shows "estimate_accuracy_from_pattern s = Inr 20.0 \<or> estimate_accuracy_from_pattern s = Inr 8.0"
proof (cases "length (recent_elevations s) < 4")
  case True
  then show ?thesis by (simp add: estimate_short)
next
  case False
  define cs where "cs = changes_of (recent_elevations s)"
  have zero: "set cs \<subseteq> {0}"
    unfolding cs_def using assms(1) by (rule changes_of_constant)
  have len: "length cs = 3"
    using False assms(2) by (simp add: cs_def length_changes_of)
  then have "cs \<noteq> []" by auto
  then have "last cs \<in> set cs" by simp
  with zero have l: "last cs = 0" by auto
  have "cs ! 0 \<in> set cs" using len by simp
  with zero have z: "cs ! 0 = 0" by auto
  have r: "reversal_spike (spike_reversal_threshold s) cs = Inr False"
    by (simp add: reversal_spike_eq l)
  have o: "oscillating cs = Inr False"
    by (simp add: oscillating_eq z sign_of_def)
  have m: "micro_jitter (recent_elevations s) = Inr False"
    using assms(2) by (simp add: micro_jitter_short)
  show ?thesis
    using False r o m unfolding cs_def
    by (simp add: estimate_accuracy_from_pattern_def)
qed

lemma push_constant:
  "set xs \<subseteq> {v} \<Longrightarrow> set (if c then tl (xs @ [v]) else xs @ [v]) \<subseteq> {v}"
  by (cases xs) auto

lemma constant_step:
  assumes "constant_state v s" and exact: "blend (alpha_min s) v v = v"
  shows "\<exists>s'. add_reading s v a = Inr (v, s') \<and> constant_state v s' \<and> same_config s' s"
proof -
  obtain r s' where step: "add_reading s v a = Inr (r, s')"
    using add_reading_total by blast
  from add_reading_result[OF step] obtain s1 est w rej s2 al where
    s1: "track_raw s v = Inr s1" and g: "gate s1 v (accuracy_to_use a est) = (w, rej)"
    and s2: "track_accepted s1 w rej = Inr s2" and al: "calculate_adaptive_alpha s2 = Inr al"
    and r: "r = smooth s2 al w" and s': "s' = s2\<lparr> previous_smoothed := Some (smooth s2 al w) \<rparr>"
    by blast
  have c1: "constant_state v s1"
    using s1 assms push_constant[of "recent_elevations s" v "4 \<le> length (recent_elevations s)"]
    by (auto simp: track_raw_eq constant_state_def)
  have w: "w = v"
    using g c1 by (auto simp: gate_def constant_state_def split: if_splits option.splits)
  have c2: "constant_state v s2"
    using s2 c1 w
      push_constant[of "recent_accepted_elevations s1" v
        "trend_window s1 < int (length (recent_accepted_elevations s1)) + 1"]
    by (cases rej) (auto simp: track_accepted_eq constant_state_def)
  have "same_config s2 s"
    using s1 s2 by (auto simp: track_raw_eq track_accepted_eq same_config_def split: if_splits)
  then have "alpha_min s2 = alpha_min s"
    by (simp add: same_config_def)
  moreover have "calculate_adaptive_alpha s2 = Inr (alpha_min s2)"
    using c2 by (intro alpha_constant[of s2 v]) (simp add: constant_state_def)
  ultimately have "al = alpha_min s"
    using al by simp
  then have r': "r = v"
    using c2 exact by (auto simp: r w smooth_def constant_state_def)
  have "constant_state v s'"
    using c2 by (simp add: s' r[symmetric] r' constant_state_def)
  with step r' add_reading_same_config[OF step] show ?thesis by simp
qed

lemma feed_constant:
  assumes "constant_state v s" and "blend (alpha_min s) v v = v"
  shows "\<exists>s'. feed s (replicate n v) = Inr (replicate n v, s') \<and> constant_state v s' \<and>
              same_config s' s"
  using assms
proof (induction n arbitrary: s)
  case 0
  then show ?case by (simp add: feed_def same_config_def)
next
  case (Suc n)
  from constant_step[OF Suc.prems, of no_accuracy] obtain s1 where
    step: "add_reading s v no_accuracy = Inr (v, s1)" and c1: "constant_state v s1"
    and cfg1: "same_config s1 s" by blast
  from cfg1 Suc.prems(2) have "blend (alpha_min s1) v v = v"
    by (simp add: same_config_def)
  from Suc.IH[OF c1 this] obtain s' where
    rest: "feed s1 (replicate n v) = Inr (replicate n v, s')" and c': "constant_state v s'"
    and cfg': "same_config s' s1" by blast
  have "feed s (replicate (Suc n) v) = Inr (replicate (Suc n) v, s')"
    using step rest by (simp add: feed_def)
  with c' cfg' cfg1 show ?case by (auto simp: same_config_def)
qed

section \<open>The worked scenario\<close>

text \<open>
  Claim C1. With the default configuration and no vertical accuracy on any call, a freshly
  constructed filter fed 10, 10, 10, 10, 100, 10, 10 returns 10, 10, 10, 10, 77.5, 77.5,
  35.3125, in that order.
\<close>

theorem worked_scenario:
  "outputs_of (feed init_default [10.0, 10.0, 10.0, 10.0, 100.0, 10.0, 10.0]) =
     Inr [10.0, 10.0, 10.0, 10.0, 77.5, 77.5, 35.3125]"
  by (simp add: run_eval cong: run_cong)

section \<open>Bounded alpha\<close>

text \<open>
  Claim C5. When \<open>alpha_min \<le> alpha_max\<close>, whatever the accepted window holds,
  \<open>_calculate_adaptive_alpha\<close> returns a coefficient between \<open>alpha_min\<close> and
  \<open>alpha_max\<close>. The statement is about every state, so it covers each call that
  \<open>add_reading\<close> makes during any sequence.
\<close>

theorem alpha_bounded:
  assumes "alpha_min s \<le> alpha_max s"
  shows "\<exists>a. calculate_adaptive_alpha s = Inr a \<and> alpha_min s \<le> a \<and> a \<le> alpha_max s"
  using alpha_shape[of s] assms by auto

theorem alpha_bounded_witness:
  "alpha_min (init_default\<lparr> recent_accepted_elevations := [10, 10, 10, 100, 10] \<rparr>)
     \<le> alpha_max (init_default\<lparr> recent_accepted_elevations := [10, 10, 10, 100, 10] \<rparr>) \<and>
   (\<exists>a. calculate_adaptive_alpha
           (init_default\<lparr> recent_accepted_elevations := [10, 10, 10, 100, 10] \<rparr>) = Inr a \<and>
        alpha_min (init_default\<lparr> recent_accepted_elevations := [10, 10, 10, 100, 10] \<rparr>) \<le> a \<and>
        a \<le> alpha_max (init_default\<lparr> recent_accepted_elevations := [10, 10, 10, 100, 10] \<rparr>))"
proof -
  have le: "alpha_min (init_default\<lparr> recent_accepted_elevations := [10, 10, 10, 100, 10] \<rparr>)
     \<le> alpha_max (init_default\<lparr> recent_accepted_elevations := [10, 10, 10, 100, 10] \<rparr>)"
    by (simp add: init_default_def init_def)
  show ?thesis
    using le alpha_bounded [OF le] by simp
qed

section \<open>Totality\<close>

text \<open>
  Claim C9. \<open>add_reading\<close> never raises: from every state, for every elevation and every
  vertical accuracy, it returns a value and a next state, and so does every sequence of
  calls. The same holds of the two helpers, so in particular neither division of
  \<open>_calculate_adaptive_alpha\<close> meets a zero divisor. In the model a zero divisor, an index out of range, a \<open>pop\<close> from an empty list
  and a \<open>max\<close> of an empty sequence are all \<open>Inl\<close> results.
\<close>

theorem add_reading_never_raises:
  "(\<exists>r s'. add_reading s e a = Inr (r, s')) \<and>
   (\<exists>alpha. calculate_adaptive_alpha s = Inr alpha) \<and>
   (\<exists>est. estimate_accuracy_from_pattern s = Inr est) \<and>
   (\<exists>outputs s'. run s calls = Inr (outputs, s'))"
  using add_reading_total alpha_total estimate_total run_total by blast

section \<open>First-call identity\<close>

text \<open>
  Claim C3. Whatever the configuration, the elevation and the vertical accuracy (supplied or
  not), the first call of \<open>add_reading\<close> on a freshly constructed filter, or on one that
  has just been reset, returns the elevation it was given.
\<close>

theorem first_call_returns_reading:
  "(\<exists>s'. add_reading (init vat amin amax tw srt) e a = Inr (e, s')) \<and>
   (\<exists>s'. add_reading (reset s) e a = Inr (e, s'))"
proof
  show "\<exists>s'. add_reading (init vat amin amax tw srt) e a = Inr (e, s')"
    by (rule first_call_identity) (simp add: init_def)
  show "\<exists>s'. add_reading (reset s) e a = Inr (e, s')"
    by (rule first_call_identity) (simp add: reset_def)
qed

section \<open>Gating on poor accuracy\<close>

text \<open>
  Claim C4 says that a call whose accuracy is above the threshold, made when a previous
  smoothed value exists, returns that value exactly. The source does substitute the previous
  value \<open>p\<close> for the reading, but it still sends it through the blend
  \<open>alpha * p + (1 - alpha) * p\<close>, and the two rounded products need not add up to \<open>p\<close>.
  With the default configuration and no vertical accuracy, the readings 1682.6, 1689.0,
  1691.7, 1682.7 lead to the state below, whose last output is 1685.075. The next reading,
  1692.3, completes a reversal spike (estimate 30.0) and is rejected; the call returns
  1685.0749999999998.
\<close>

theorem poor_accuracy_repeats_last_counterexample:
  "run init_default [AddReading (fl 1682.6) no_accuracy, AddReading (fl 1689.0) no_accuracy,
       AddReading (fl 1691.7) no_accuracy, AddReading (fl 1682.7) no_accuracy]
     = Inr ([fl 1682.6, fl 1684.1999999999998, fl 1689.825, fl 1685.075],
            init_default\<lparr> previous_smoothed := Some (fl 1685.075),
              recent_elevations := [fl 1682.6, fl 1689.0, fl 1691.7, fl 1682.7],
              recent_accepted_elevations := [fl 1682.6, fl 1689.0, fl 1691.7, fl 1682.7] \<rparr>) \<and>
   track_raw (init_default\<lparr> previous_smoothed := Some (fl 1685.075),
              recent_elevations := [fl 1682.6, fl 1689.0, fl 1691.7, fl 1682.7],
              recent_accepted_elevations := [fl 1682.6, fl 1689.0, fl 1691.7, fl 1682.7] \<rparr>)
       (fl 1692.3)
     = Inr (init_default\<lparr> previous_smoothed := Some (fl 1685.075),
              recent_elevations := [fl 1689.0, fl 1691.7, fl 1682.7, fl 1692.3],
              recent_accepted_elevations := [fl 1682.6, fl 1689.0, fl 1691.7, fl 1682.7] \<rparr>) \<and>
   estimate_accuracy_from_pattern (init_default\<lparr> previous_smoothed := Some (fl 1685.075),
              recent_elevations := [fl 1689.0, fl 1691.7, fl 1682.7, fl 1692.3],
              recent_accepted_elevations := [fl 1682.6, fl 1689.0, fl 1691.7, fl 1682.7] \<rparr>)
     = Inr 30.0 \<and>
   accuracy_to_use no_accuracy 30.0 > vertical_accuracy_threshold init_default \<and>
   add_reading (init_default\<lparr> previous_smoothed := Some (fl 1685.075),
              recent_elevations := [fl 1682.6, fl 1689.0, fl 1691.7, fl 1682.7],
              recent_accepted_elevations := [fl 1682.6, fl 1689.0, fl 1691.7, fl 1682.7] \<rparr>)
       (fl 1692.3) no_accuracy
     = Inr (fl 1685.0749999999998,
            init_default\<lparr> previous_smoothed := Some (fl 1685.0749999999998),
              recent_elevations := [fl 1689.0, fl 1691.7, fl 1682.7, fl 1692.3],
              recent_accepted_elevations := [fl 1682.6, fl 1689.0, fl 1691.7, fl 1682.7] \<rparr>) \<and>
   fl 1685.0749999999998 \<noteq> fl 1685.075"
  by (simp add: run_eval cong: run_cong)

text \<open>
  Claim C4, amended. Take a call of \<open>add_reading\<close> in which the accuracy used (the supplied
  one when it is not negative, the pattern estimate on the updated raw window otherwise) is
  strictly above \<open>vertical_accuracy_threshold\<close>. If a previous smoothed value \<open>p\<close> exists,
  the gate rejects the reading and substitutes \<open>p\<close> for it, the accepted window is left as it
  was, and the call returns the blend of \<open>p\<close> with itself, \<open>alpha * p + (1 - alpha) * p\<close> as
  binary64 computes it, where \<open>alpha\<close> is the coefficient of the unchanged accepted window.
  If no previous value exists, the reading is not substituted: it passes the gate
  unrejected, enters the accepted window and is returned.
\<close>

theorem poor_accuracy_blends_last_with_itself:
  assumes "track_raw s e = Inr s1"
    and "estimate_accuracy_from_pattern s1 = Inr est"
    and "accuracy_to_use a est > vertical_accuracy_threshold s"
  shows "case previous_smoothed s of
           Some p \<Rightarrow> \<exists>alpha s'. gate s1 e (accuracy_to_use a est) = (p, True) \<and>
                      calculate_adaptive_alpha s = Inr alpha \<and>
                      add_reading s e a = Inr (blend alpha p p, s') \<and>
                      recent_accepted_elevations s' = recent_accepted_elevations s
         | None \<Rightarrow> \<exists>s2 s'. gate s1 e (accuracy_to_use a est) = (e, False) \<and>
                      track_accepted s1 e False = Inr s2 \<and>
                      add_reading s e a = Inr (e, s') \<and>
                      recent_accepted_elevations s' = recent_accepted_elevations s2"
proof (cases "previous_smoothed s")
  case None
  then have p1: "previous_smoothed s1 = None"
    using track_raw_previous[OF assms(1)] by simp
  have g: "gate s1 e (accuracy_to_use a est) = (e, False)"
    by (simp add: gate_def p1)
  obtain s2 where s2: "track_accepted s1 e False = Inr s2"
    by (simp add: track_accepted_eq)
  have p2: "previous_smoothed s2 = None"
    using s2 p1 by (auto simp: track_accepted_eq)
  obtain al where al: "calculate_adaptive_alpha s2 = Inr al"
    using alpha_total by blast
  have "smooth s2 al e = e"
    by (simp add: smooth_def p2)
  with add_reading_stages[OF assms(1,2) g s2 al] g s2 None show ?thesis by simp
next
  case (Some p)
  then have p1: "previous_smoothed s1 = Some p"
    using track_raw_previous[OF assms(1)] by simp
  have thr: "vertical_accuracy_threshold s1 = vertical_accuracy_threshold s"
    and acc: "recent_accepted_elevations s1 = recent_accepted_elevations s"
    using track_raw_config[OF assms(1)] by simp_all
  have g: "gate s1 e (accuracy_to_use a est) = (p, True)"
    using assms(3) by (simp add: gate_def p1 thr)
  have s2: "track_accepted s1 p True = Inr s1"
    by (simp add: track_accepted_eq)
  obtain al where al: "calculate_adaptive_alpha s1 = Inr al"
    using alpha_total by blast
  then have al': "calculate_adaptive_alpha s = Inr al"
    using track_raw_alpha[OF assms(1)] by simp
  have "smooth s1 al p = blend al p p"
    by (simp add: smooth_def p1)
  with add_reading_stages[OF assms(1,2) g s2 al] g al' acc Some show ?thesis by simp
qed

theorem poor_accuracy_blends_last_with_itself_witness:
  "track_raw (init_default\<lparr> previous_smoothed := Some 77.5, recent_elevations := [10, 10, 10, 100],
       recent_accepted_elevations := [10, 10, 10, 10, 100] \<rparr>) 10
     = Inr (init_default\<lparr> previous_smoothed := Some 77.5, recent_elevations := [10, 10, 100, 10],
       recent_accepted_elevations := [10, 10, 10, 10, 100] \<rparr>) \<and>
   estimate_accuracy_from_pattern (init_default\<lparr> previous_smoothed := Some 77.5,
       recent_elevations := [10, 10, 100, 10],
       recent_accepted_elevations := [10, 10, 10, 10, 100] \<rparr>) = Inr 30.0 \<and>
   accuracy_to_use no_accuracy 30.0 > vertical_accuracy_threshold (init_default\<lparr>
       previous_smoothed := Some 77.5, recent_elevations := [10, 10, 10, 100],
       recent_accepted_elevations := [10, 10, 10, 10, 100] \<rparr>) \<and>
   (\<exists>s'. add_reading (init_default\<lparr> previous_smoothed := Some 77.5,
             recent_elevations := [10, 10, 10, 100],
             recent_accepted_elevations := [10, 10, 10, 10, 100] \<rparr>) 10 no_accuracy
           = Inr (blend 0.75 77.5 77.5, s') \<and>
         recent_accepted_elevations s' = [10, 10, 10, 10, 100]) \<and>
   blend 0.75 77.5 77.5 = 77.5 \<and>
   track_raw init_default 5 = Inr (init_default\<lparr> recent_elevations := [5] \<rparr>) \<and>
   estimate_accuracy_from_pattern (init_default\<lparr> recent_elevations := [5] \<rparr>) = Inr 20.0 \<and>
   accuracy_to_use 50 20.0 > vertical_accuracy_threshold init_default \<and>
   (\<exists>s'. add_reading init_default 5 50 = Inr (5, s') \<and> recent_accepted_elevations s' = [5])"
proof -
  define s where "s = init_default\<lparr> previous_smoothed := Some 77.5,
       recent_elevations := [10, 10, 10, 100],
       recent_accepted_elevations := [10, 10, 10, 10, 100] \<rparr>"
  define s1 where "s1 = init_default\<lparr> previous_smoothed := Some 77.5,
       recent_elevations := [10, 10, 100, 10],
       recent_accepted_elevations := [10, 10, 10, 10, 100] \<rparr>"
  define t1 where "t1 = init_default\<lparr> recent_elevations := [5] \<rparr>"
  have h1: "track_raw s 10 = Inr s1"
    by (simp add: s_def s1_def track_raw_eq init_default_def init_def)
  have h2: "estimate_accuracy_from_pattern s1 = Inr 30.0"
    unfolding s1_def by (simp add: run_eval cong: run_cong)
  have h3: "accuracy_to_use no_accuracy 30.0 > vertical_accuracy_threshold s"
    by (simp add: s_def accuracy_to_use_def no_accuracy_def init_default_def init_def)
  have al: "calculate_adaptive_alpha s = Inr 0.75"
    unfolding s_def by (simp add: run_eval cong: run_cong)
  have p: "previous_smoothed s = Some 77.5"
    and w: "recent_accepted_elevations s = [10, 10, 10, 10, 100]"
    by (simp_all add: s_def)
  from poor_accuracy_blends_last_with_itself [OF h1 h2 h3] obtain alpha s' where
    a: "calculate_adaptive_alpha s = Inr alpha"
    and r: "add_reading s 10 no_accuracy = Inr (blend alpha 77.5 77.5, s')"
    and w': "recent_accepted_elevations s' = recent_accepted_elevations s"
    unfolding p by auto
  from a al have "alpha = 0.75" by simp
  with r w w' have c: "\<exists>s'. add_reading s 10 no_accuracy = Inr (blend 0.75 77.5 77.5, s') \<and>
         recent_accepted_elevations s' = [10, 10, 10, 10, 100]"
    by auto
  have b: "blend 0.75 77.5 77.5 = 77.5"
    by (simp add: blend_def fl_eval)
  have k1: "track_raw init_default 5 = Inr t1"
    by (simp add: t1_def track_raw_eq init_default_def init_def)
  have k2: "estimate_accuracy_from_pattern t1 = Inr 20.0"
    by (simp add: t1_def estimate_short)
  have k3: "accuracy_to_use 50 20.0 > vertical_accuracy_threshold init_default"
    by (simp add: accuracy_to_use_def init_default_def init_def)
  have d: "\<exists>s'. add_reading init_default 5 50 = Inr (5, s') \<and> recent_accepted_elevations s' = [5]"
    using poor_accuracy_blends_last_with_itself [OF k1 k2 k3]
    by (auto simp: t1_def track_accepted_eq init_default_def init_def)
  from h1 h2 h3 c b k1 k2 k3 d show ?thesis
    unfolding s_def s1_def t1_def by blast
qed

section \<open>Short raw windows\<close>

text \<open>
  Claim C8. When no vertical accuracy is supplied (the argument is negative) and the raw
  window, after the reading was appended, has fewer than four elements, the pattern estimate
  is 20.0 and that is the accuracy used. The gate compares with a strict \<open>>\<close>, so an
  accuracy equal to the threshold passes; with the default threshold 20.0 the reading is
  therefore not rejected: it is the value that is smoothed and it enters the accepted window.
\<close>

theorem short_window_accepted:
  assumes "a < 0"
    and "track_raw s e = Inr s1"
    and "length (recent_elevations s1) < 4"
  shows "estimate_accuracy_from_pattern s1 = Inr 20.0 \<and>
         accuracy_to_use a 20.0 = 20.0 \<and>
         gate s1 e (vertical_accuracy_threshold s1) = (e, False) \<and>
         (vertical_accuracy_threshold s = 20.0 \<longrightarrow>
            gate s1 e (accuracy_to_use a 20.0) = (e, False) \<and>
            (\<exists>s2 alpha s'. track_accepted s1 e False = Inr s2 \<and>
                calculate_adaptive_alpha s2 = Inr alpha \<and>
                add_reading s e a = Inr (smooth s2 alpha e, s') \<and>
                recent_accepted_elevations s' = recent_accepted_elevations s2))"
proof -
  have est: "estimate_accuracy_from_pattern s1 = Inr 20.0"
    using assms(3) by (rule estimate_short)
  have acc: "accuracy_to_use a 20.0 = 20.0"
    using assms(1) by (simp add: accuracy_to_use_def)
  have thr: "vertical_accuracy_threshold s1 = vertical_accuracy_threshold s"
    using track_raw_config[OF assms(2)] by simp
  have rest: "gate s1 e (accuracy_to_use a 20.0) = (e, False) \<and>
            (\<exists>s2 alpha s'. track_accepted s1 e False = Inr s2 \<and>
                calculate_adaptive_alpha s2 = Inr alpha \<and>
                add_reading s e a = Inr (smooth s2 alpha e, s') \<and>
                recent_accepted_elevations s' = recent_accepted_elevations s2)"
    if d: "vertical_accuracy_threshold s = 20.0"
  proof -
    have g: "gate s1 e (accuracy_to_use a 20.0) = (e, False)"
      using gate_at_threshold[of s1 e] acc thr d by simp
    obtain s2 where s2: "track_accepted s1 e False = Inr s2"
      by (simp add: track_accepted_eq)
    obtain al where al: "calculate_adaptive_alpha s2 = Inr al"
      using alpha_total by blast
    from add_reading_stages[OF assms(2) est g s2 al] g s2 al show ?thesis
      by auto
  qed
  from est acc gate_at_threshold rest show ?thesis by blast
qed

text \<open>
  The witness is a second reading, 50 after 10: a previous smoothed value exists, so the
  gate could reject. The estimate 20.0 equals the default threshold and the reading is
  accepted; the same gate rejects an accuracy of 20.5.
\<close>

theorem short_window_accepted_witness:
  "no_accuracy < 0 \<and>
   track_raw (init_default\<lparr> previous_smoothed := Some 10, recent_elevations := [10],
       recent_accepted_elevations := [10] \<rparr>) 50
     = Inr (init_default\<lparr> previous_smoothed := Some 10, recent_elevations := [10, 50],
       recent_accepted_elevations := [10] \<rparr>) \<and>
   length (recent_elevations (init_default\<lparr> previous_smoothed := Some 10,
       recent_elevations := [10, 50], recent_accepted_elevations := [10] \<rparr>)) < 4 \<and>
   vertical_accuracy_threshold (init_default\<lparr> previous_smoothed := Some 10,
       recent_elevations := [10], recent_accepted_elevations := [10] \<rparr>) = 20.0 \<and>
   estimate_accuracy_from_pattern (init_default\<lparr> previous_smoothed := Some 10,
       recent_elevations := [10, 50], recent_accepted_elevations := [10] \<rparr>) = Inr 20.0 \<and>
   gate (init_default\<lparr> previous_smoothed := Some 10, recent_elevations := [10, 50],
       recent_accepted_elevations := [10] \<rparr>) 50 (accuracy_to_use no_accuracy 20.0)
     = (50, False) \<and>
   gate (init_default\<lparr> previous_smoothed := Some 10, recent_elevations := [10, 50],
       recent_accepted_elevations := [10] \<rparr>) 50 20.5
     = (10, True) \<and>
   (\<exists>s'. add_reading (init_default\<lparr> previous_smoothed := Some 10, recent_elevations := [10],
       recent_accepted_elevations := [10] \<rparr>) 50 no_accuracy = Inr (20, s') \<and>
       recent_accepted_elevations s' = [10, 50])"
proof -
  define s where "s = init_default\<lparr> previous_smoothed := Some 10, recent_elevations := [10],
       recent_accepted_elevations := [10] \<rparr>"
  define s1 where "s1 = init_default\<lparr> previous_smoothed := Some 10,
       recent_elevations := [10, 50], recent_accepted_elevations := [10] \<rparr>"
  have h1: "no_accuracy < 0" by (simp add: no_accuracy_def)
  have h2: "track_raw s 50 = Inr s1"
    by (simp add: s_def s1_def track_raw_eq init_default_def init_def)
  have h3: "length (recent_elevations s1) < 4"
    by (simp add: s1_def)
  have h4: "vertical_accuracy_threshold s = 20.0"
    by (simp add: s_def init_default_def init_def)
  note concl = short_window_accepted [OF h1 h2 h3]
  from concl have est: "estimate_accuracy_from_pattern s1 = Inr 20.0"
    by blast
  from concl h4 have g: "gate s1 50 (accuracy_to_use no_accuracy 20.0) = (50, False)"
    by blast
  from concl h4 obtain s2 alpha s' where
    s2: "track_accepted s1 50 False = Inr s2"
    and a: "calculate_adaptive_alpha s2 = Inr alpha"
    and r: "add_reading s 50 no_accuracy = Inr (smooth s2 alpha 50, s')"
    and w: "recent_accepted_elevations s' = recent_accepted_elevations s2"
    by blast
  have s2_eq: "s2 = s1\<lparr> recent_accepted_elevations := [10, 50] \<rparr>"
    using s2 by (simp add: s1_def track_accepted_eq init_default_def init_def)
  have "calculate_adaptive_alpha (s1\<lparr> recent_accepted_elevations := [10, 50] \<rparr>) = Inr 0.25"
    by (simp add: s1_def calculate_adaptive_alpha_def init_default_def init_def)
  with a have alpha: "alpha = 0.25"
    by (simp add: s2_eq)
  have "smooth (s1\<lparr> recent_accepted_elevations := [10, 50] \<rparr>) 0.25 50 = 20"
    by (simp add: s1_def smooth_def blend_def fl_eval)
  with r w have out: "\<exists>s'. add_reading s 50 no_accuracy = Inr (20, s') \<and>
       recent_accepted_elevations s' = [10, 50]"
    by (auto simp: s2_eq alpha)
  have g': "gate s1 50 20.5 = (10, True)"
    by (simp add: s1_def gate_def init_default_def init_def)
  from h1 h2 h3 h4 est g g' out show ?thesis
    unfolding s_def s1_def by blast
qed

section \<open>Constant input\<close>

text \<open>
  Claim C2 says that a fresh filter fed one value \<open>v\<close> on every call returns \<open>v\<close> on every
  call. From the second call on, the output is the blend
  \<open>alpha_min * v + (1 - alpha_min) * v\<close>, whose rounded products need not add up to \<open>v\<close>.
  A filter constructed with \<open>alpha_min = 0.1\<close> (the other parameters at their defaults) and
  fed 3771.5966081431343 twice returns 3771.5966081431347 on the second call.
\<close>

theorem constant_input_counterexample:
  "outputs_of (feed (init 20.0 (fl 0.1) 0.75 5 3.0)
                 [fl 3771.5966081431343, fl 3771.5966081431343])
     = Inr [fl 3771.5966081431343, fl 3771.5966081431347] \<and>
   fl 3771.5966081431347 \<noteq> fl 3771.5966081431343"
  by (simp add: run_eval cong: run_cong)

text \<open>
  Claim C2, amended. For every configuration, every elevation \<open>v\<close> and every number \<open>n\<close> of
  calls: if the blend of \<open>v\<close> with itself at \<open>alpha_min\<close>, as binary64 computes it, is \<open>v\<close>,
  then a fresh filter fed \<open>v\<close> on each call, with no vertical accuracy, returns \<open>v\<close> on each
  call. The state after the last call holds the windows that this call used: on them the
  classifier finds no spike (it answers 20.0 or 8.0) and the coefficient is \<open>alpha_min\<close>.
  Since \<open>n\<close> is arbitrary, this holds of every call.
\<close>

theorem constant_input_exact_blend:
  assumes "blend amin v v = v"
  shows "\<exists>s'. feed (init vat amin amax tw srt) (replicate n v) = Inr (replicate n v, s') \<and>
        calculate_adaptive_alpha s' = Inr amin \<and>
        (estimate_accuracy_from_pattern s' = Inr 20.0 \<or>
         estimate_accuracy_from_pattern s' = Inr 8.0)"
proof -
  have "constant_state v (init vat amin amax tw srt)"
    by (simp add: constant_state_def init_def)
  moreover have "blend (alpha_min (init vat amin amax tw srt)) v v = v"
    using assms by (simp add: init_def)
  ultimately obtain s' where
    f: "feed (init vat amin amax tw srt) (replicate n v) = Inr (replicate n v, s')"
    and c: "constant_state v s'" and cfg: "same_config s' (init vat amin amax tw srt)"
    using feed_constant[of v "init vat amin amax tw srt" n] by blast
  have "alpha_min s' = amin"
    using cfg by (simp add: same_config_def init_def)
  with alpha_constant[of s' v] c have "calculate_adaptive_alpha s' = Inr amin"
    by (simp add: constant_state_def)
  moreover have "estimate_accuracy_from_pattern s' = Inr 20.0 \<or>
         estimate_accuracy_from_pattern s' = Inr 8.0"
    using c by (intro estimate_constant[of s' v]) (simp_all add: constant_state_def)
  ultimately show ?thesis using f by blast
qed

theorem constant_input_exact_blend_witness:
  "blend 0.25 (fl 1682.6) (fl 1682.6) = fl 1682.6 \<and>
   (\<exists>s'. feed (init 20.0 0.25 0.75 5 3.0) (replicate 6 (fl 1682.6))
            = Inr (replicate 6 (fl 1682.6), s') \<and>
        calculate_adaptive_alpha s' = Inr 0.25 \<and>
        (estimate_accuracy_from_pattern s' = Inr 20.0 \<or>
         estimate_accuracy_from_pattern s' = Inr 8.0))"
proof -
  have h: "blend 0.25 (fl 1682.6) (fl 1682.6) = fl 1682.6"
    by (simp add: blend_def fl_eval)
  show ?thesis
    by (rule conjI [OF h constant_input_exact_blend [OF h]])
qed

text \<open>
  The hypothesis cannot be dropped or weakened: whatever the configuration, the second of
  two equal readings returns that blend.
\<close>

lemma constant_input_second_call:
  "\<exists>s'. feed (init vat amin amax tw srt) [v, v] = Inr ([v, blend amin v v], s')"
proof -
  define s0 where "s0 = init vat amin amax tw srt"
  have c0: "constant_state v s0"
    by (simp add: s0_def constant_state_def init_def)
  obtain r1 s1 where step1: "add_reading s0 v no_accuracy = Inr (r1, s1)"
    using add_reading_total by blast
  have r1: "r1 = v"
    using first_call_identity[of s0 v no_accuracy] step1 by (simp add: s0_def init_def)
  from add_reading_result[OF step1] obtain t1 est w rej t2 al where
    t1: "track_raw s0 v = Inr t1" and g: "gate t1 v (accuracy_to_use no_accuracy est) = (w, rej)"
    and t2: "track_accepted t1 w rej = Inr t2"
    and s1: "s1 = t2\<lparr> previous_smoothed := Some (smooth t2 al w) \<rparr>"
    and r1': "r1 = smooth t2 al w"
    by blast
  have g': "w = v \<and> rej = False"
    using g t1 by (auto simp: gate_def track_raw_eq s0_def init_def split: if_splits)
  have s1_eq: "s1 = s0\<lparr> previous_smoothed := Some v, recent_elevations := [v],
                  recent_accepted_elevations :=
                    (if tw < 1 then [] else [v]) \<rparr>"
    using t1 t2 g' r1 r1' s1
    by (auto simp: track_raw_eq track_accepted_eq s0_def init_def)
  obtain r2 s2 where step2: "add_reading s1 v no_accuracy = Inr (r2, s2)"
    using add_reading_total by blast
  from add_reading_result[OF step2] obtain u1 est2 w2 rej2 u2 al2 where
    u1: "track_raw s1 v = Inr u1"
    and g2: "gate u1 v (accuracy_to_use no_accuracy est2) = (w2, rej2)"
    and u2: "track_accepted u1 w2 rej2 = Inr u2"
    and al2: "calculate_adaptive_alpha u2 = Inr al2"
    and r2: "r2 = smooth u2 al2 w2"
    by blast
  have pu1: "previous_smoothed u1 = Some v"
    using u1 by (auto simp: track_raw_eq s1_eq)
  have w2: "w2 = v"
    using g2 pu1 by (auto simp: gate_def split: if_splits)
  have pu2: "previous_smoothed u2 = Some v" and amin2: "alpha_min u2 = amin"
    and short: "length (recent_accepted_elevations u2) < 3"
    using u1 u2 by (auto simp: track_raw_eq track_accepted_eq s1_eq s0_def init_def
        split: if_splits)
  have "calculate_adaptive_alpha u2 = Inr amin"
    using short amin2 by (simp add: calculate_adaptive_alpha_def)
  with al2 have "al2 = amin" by simp
  then have "r2 = blend amin v v"
    by (simp add: r2 w2 smooth_def pu2)
  with step1 step2 r1 show ?thesis
    by (auto simp: feed_def s0_def)
qed

section \<open>Reset independence\<close>

text \<open>
  Claim C6. Let a filter be constructed with any configuration and go through any history
  of \<open>add_reading\<close> and \<open>reset\<close> calls. After one more \<open>reset\<close>, every further
  sequence of calls gives the same outputs (and the same final state) as on a filter
  freshly constructed with that configuration.
\<close>

theorem reset_independence:
  assumes "run (init vat amin amax tw srt) history = Inr (outs, s)"
  shows "run (reset s) calls = run (init vat amin amax tw srt) calls"
proof -
  have "same_config s (init vat amin amax tw srt)"
    using run_invariants[OF assms] by simp
  then show ?thesis by (simp add: reset_eq_init)
qed

theorem reset_independence_witness:
  "run (init 20.0 0.25 0.75 5 3.0) [AddReading 10 no_accuracy, Reset, AddReading 10 no_accuracy,
        AddReading 100 no_accuracy]
     = Inr ([10, 10, 32.5],
            (init 20.0 0.25 0.75 5 3.0)\<lparr> previous_smoothed := Some 32.5,
               recent_elevations := [10, 100], recent_accepted_elevations := [10, 100] \<rparr>) \<and>
   run (reset ((init 20.0 0.25 0.75 5 3.0)\<lparr> previous_smoothed := Some 32.5,
               recent_elevations := [10, 100], recent_accepted_elevations := [10, 100] \<rparr>))
       [AddReading 7 no_accuracy, AddReading 8 30]
     = run (init 20.0 0.25 0.75 5 3.0) [AddReading 7 no_accuracy, AddReading 8 30]"
proof -
  have h: "run (init 20.0 0.25 0.75 5 3.0) [AddReading 10 no_accuracy, Reset,
        AddReading 10 no_accuracy, AddReading 100 no_accuracy]
     = Inr ([10, 10, 32.5],
            (init 20.0 0.25 0.75 5 3.0)\<lparr> previous_smoothed := Some 32.5,
               recent_elevations := [10, 100], recent_accepted_elevations := [10, 100] \<rparr>)"
    by (simp add: run_eval cong: run_cong)
  show ?thesis
    by (rule conjI [OF h reset_independence [OF h]])
qed

section \<open>The raw window and the estimates that occur\<close>

text \<open>
  Claim C10. In every state reached from a fresh filter by \<open>add_reading\<close> and \<open>reset\<close>
  calls, the raw window has at most four elements. So, whatever reading comes next, the
  window that the classifier sees has at most four elements, the micro-jitter test (which
  needs five) is not met, and the estimate is one of 20.0, 30.0, 25.0 and 8.0.
\<close>

theorem raw_window_at_most_four:
  assumes "run (init vat amin amax tw srt) calls = Inr (outs, s)"
  shows "length (recent_elevations s) \<le> 4 \<and>
         (\<forall>e. \<exists>s1. track_raw s e = Inr s1 \<and> length (recent_elevations s1) \<le> 4 \<and>
                micro_jitter (recent_elevations s1) = Inr False \<and>
                (estimate_accuracy_from_pattern s1 = Inr 20.0 \<or>
                 estimate_accuracy_from_pattern s1 = Inr 30.0 \<or>
                 estimate_accuracy_from_pattern s1 = Inr 25.0 \<or>
                 estimate_accuracy_from_pattern s1 = Inr 8.0))"
proof -
  have len: "length (recent_elevations s) \<le> 4"
    using run_invariants[OF assms] by (simp add: init_def)
  have "\<exists>s1. track_raw s e = Inr s1 \<and> length (recent_elevations s1) \<le> 4 \<and>
                micro_jitter (recent_elevations s1) = Inr False \<and>
                (estimate_accuracy_from_pattern s1 = Inr 20.0 \<or>
                 estimate_accuracy_from_pattern s1 = Inr 30.0 \<or>
                 estimate_accuracy_from_pattern s1 = Inr 25.0 \<or>
                 estimate_accuracy_from_pattern s1 = Inr 8.0)" for e
  proof -
    obtain s1 where s1: "track_raw s e = Inr s1"
      by (simp add: track_raw_eq)
    with len have l1: "length (recent_elevations s1) \<le> 4"
      by (auto simp: track_raw_eq)
    then have "micro_jitter (recent_elevations s1) = Inr False"
      by (simp add: micro_jitter_short)
    with s1 l1 estimate_four_values[OF l1] show ?thesis by blast
  qed
  with len show ?thesis by blast
qed

theorem raw_window_at_most_four_witness:
  "run (init 20.0 0.25 0.75 5 3.0)
      [AddReading 1 no_accuracy, AddReading 2 no_accuracy, AddReading 3 no_accuracy,
       AddReading 4 no_accuracy, AddReading 5 no_accuracy]
     = Inr ([1, 5 / 4, 75 / 32, 865 / 256, 8995 / 2048],
            (init 20.0 0.25 0.75 5 3.0)\<lparr> previous_smoothed := Some (8995 / 2048),
               recent_elevations := [2, 3, 4, 5],
               recent_accepted_elevations := [1, 2, 3, 4, 5] \<rparr>) \<and>
   length (recent_elevations ((init 20.0 0.25 0.75 5 3.0)\<lparr> previous_smoothed := Some (8995 / 2048),
               recent_elevations := [2, 3, 4, 5],
               recent_accepted_elevations := [1, 2, 3, 4, 5] \<rparr>)) \<le> 4"
proof -
  have h: "run (init 20.0 0.25 0.75 5 3.0)
      [AddReading 1 no_accuracy, AddReading 2 no_accuracy, AddReading 3 no_accuracy,
       AddReading 4 no_accuracy, AddReading 5 no_accuracy]
     = Inr ([1, 5 / 4, 75 / 32, 865 / 256, 8995 / 2048],
            (init 20.0 0.25 0.75 5 3.0)\<lparr> previous_smoothed := Some (8995 / 2048),
               recent_elevations := [2, 3, 4, 5],
               recent_accepted_elevations := [1, 2, 3, 4, 5] \<rparr>)"
    by (simp add: run_eval cong: run_cong)
  show ?thesis
    using h raw_window_at_most_four [OF h] by simp
qed

section \<open>Oscillating noise\<close>

text \<open>
  Claim C7. Take a raw window of the filter (the raw window of a state reached from a fresh
  filter) with at least four elements, whose changes do not meet the reversal-spike test.
  If there are at least three changes and the last three, \<open>d1\<close>, \<open>d2\<close>, \<open>d3\<close> in the order
  of the window, are all non-zero and alternate strictly in sign, the estimate is 25.0.
\<close>

theorem oscillation_estimate:
  assumes "run (init vat amin amax tw srt) calls = Inr (outs, s)"
    and "4 \<le> length (recent_elevations s)"
    and "reversal_spike (spike_reversal_threshold s) (changes_of (recent_elevations s)) = Inr False"
    and "3 \<le> length (changes_of (recent_elevations s))"
    and "rev (changes_of (recent_elevations s)) = d3 # d2 # d1 # older"
    and "d1 \<noteq> 0" and "d2 \<noteq> 0" and "d3 \<noteq> 0"
    and "(d1 > 0 \<and> d2 < 0 \<and> d3 > 0) \<or> (d1 < 0 \<and> d2 > 0 \<and> d3 < 0)"
  shows "estimate_accuracy_from_pattern s = Inr 25.0"
proof -
  have "length (recent_elevations s) \<le> 4"
    using run_invariants[OF assms(1)] by (simp add: init_def)
  with assms(2) have len: "length (recent_elevations s) = 4" by simp
  then have "length (changes_of (recent_elevations s)) = 3"
    by (simp add: length_changes_of)
  then have "length (rev (changes_of (recent_elevations s))) = 3" by simp
  with assms(5) have "older = []" by simp
  with assms(5) have "changes_of (recent_elevations s) = rev [d3, d2, d1]"
    by (metis rev_rev_ident)
  then have cs: "changes_of (recent_elevations s) = [d1, d2, d3]" by simp
  have "oscillating (changes_of (recent_elevations s)) = Inr True"
    using assms(6-9) by (auto simp: cs oscillating_eq sign_of_def)
  with len assms(3) show ?thesis by (rule estimate_oscillating_four)
qed

theorem oscillation_estimate_witness:
  "run (init 20.0 0.25 0.75 5 3.0)
      [AddReading 5 no_accuracy, AddReading 6 no_accuracy, AddReading 4 no_accuracy,
       AddReading 5 no_accuracy]
     = Inr ([5, 21 / 4, 291 / 64, 291 / 64],
            (init 20.0 0.25 0.75 5 3.0)\<lparr> previous_smoothed := Some (291 / 64),
               recent_elevations := [5, 6, 4, 5],
               recent_accepted_elevations := [5, 6, 4] \<rparr>) \<and>
   rev (changes_of [5, 6, 4, 5]) = [1, - 2, 1] \<and>
   reversal_spike 3.0 (changes_of [5, 6, 4, 5]) = Inr False \<and>
   estimate_accuracy_from_pattern ((init 20.0 0.25 0.75 5 3.0)\<lparr>
               previous_smoothed := Some (291 / 64),
               recent_elevations := [5, 6, 4, 5],
               recent_accepted_elevations := [5, 6, 4] \<rparr>) = Inr 25.0"
proof -
  define s where "s = (init 20.0 0.25 0.75 5 3.0)\<lparr> previous_smoothed := Some (291 / 64),
               recent_elevations := [5, 6, 4, 5],
               recent_accepted_elevations := [5, 6, 4] \<rparr>"
  have h1: "run (init 20.0 0.25 0.75 5 3.0)
      [AddReading 5 no_accuracy, AddReading 6 no_accuracy, AddReading 4 no_accuracy,
       AddReading 5 no_accuracy] = Inr ([5, 21 / 4, 291 / 64, 291 / 64], s)"
    unfolding s_def by (simp add: run_eval cong: run_cong)
  have h2: "4 \<le> length (recent_elevations s)"
    by (simp add: s_def)
  have h3: "reversal_spike (spike_reversal_threshold s) (changes_of (recent_elevations s)) = Inr False"
    by (simp add: s_def init_def reversal_spike_eq fl_eval)
  have h4: "3 \<le> length (changes_of (recent_elevations s))"
    by (simp add: s_def)
  have h5: "rev (changes_of (recent_elevations s)) = 1 # (- 2) # 1 # []"
    by (simp add: s_def fl_eval)
  have "estimate_accuracy_from_pattern s = Inr 25.0"
    using oscillation_estimate [OF h1 h2 h3 h4 h5] by simp
  with h1 h3 h5 show ?thesis
    by (simp add: s_def init_def)
qed

text \<open>
  The source tests \<open>signs[0]\<close>, \<open>signs[1]\<close> and \<open>signs[2]\<close>, the first three changes. The
  raw window never exceeds four elements, so there are never more than three changes and
  the first three are the last three. On a list of five elements, which \<open>add_reading\<close>
  never builds, the function would look at the first three changes only: below the last
  three changes 1, -1, 1 alternate and the answer is not 25.0.
\<close>

lemma estimate_reads_first_three_changes:
  "estimate_accuracy_from_pattern (init_default\<lparr> recent_elevations := [0, 0, 1, 0, 1] \<rparr>)
     = Inr 15.0"
  by (simp add: run_eval cong: run_cong)

end
